theory Spec2Isabelle
  imports Complex_Main "HOL-Library.Sublist"
begin

section \<open>JavaScript helpers\<close>

text \<open>
  \<^verbatim>\<open>xs.slice(start)\<close>: a negative start counts from the end and is clamped at 0, a
  start past the end gives the empty array.
\<close>

definition js_slice_from :: "int \<Rightarrow> 'a list \<Rightarrow> 'a list" where
  "js_slice_from start xs =
     (let len = int (length xs);
          k = (if start < 0 then max (len + start) 0 else min start len)
      in drop (nat k) xs)"

text \<open>Truthiness of a value of type \<^verbatim>\<open>string | null\<close>: null and the empty string are falsy.\<close>

fun truthy :: "string option \<Rightarrow> bool" where
  "truthy None = False"
| "truthy (Some t) = (t \<noteq> [])"

text \<open>\<^verbatim>\<open>a || b\<close> for a possibly missing string \<^verbatim>\<open>a\<close>.\<close>

definition or_else :: "string option \<Rightarrow> string \<Rightarrow> string" where
  "or_else a b = (if truthy a then the a else b)"

text \<open>
  Strings are lists of 8-bit characters; the model covers ASCII text. The quote and the
  line feed are named because they cannot be written inside a literal.
\<close>

definition QUOTE :: char where
  "QUOTE = CHR 0x27"

definition NEWLINE :: char where
  "NEWLINE = CHR 0x0A"

text \<open>\<^verbatim>\<open>parts.join(sep)\<close>\<close>

fun js_join :: "string \<Rightarrow> string list \<Rightarrow> string" where
  "js_join sep [] = []"
| "js_join sep [x] = x"
| "js_join sep (x # y # ys) = x @ sep @ js_join sep (y # ys)"

text \<open>\<^verbatim>\<open>t.includes(p)\<close>: \<^verbatim>\<open>p\<close> occurs in \<^verbatim>\<open>t\<close> as a contiguous piece.\<close>

definition js_includes :: "string \<Rightarrow> string \<Rightarrow> bool" where
  "js_includes t p = sublist p t"

text \<open>\<^verbatim>\<open>s.toLowerCase()\<close> and SQL \<^verbatim>\<open>LOWER\<close>, on the letters A to Z.\<close>

definition lower_char :: "char \<Rightarrow> char" where
  "lower_char c =
     (let n = (of_char c :: nat) in if 65 \<le> n \<and> n \<le> 90 then char_of (n + 32) else c)"

definition toLowerCase :: "string \<Rightarrow> string" where
  "toLowerCase s = map lower_char s"

text \<open>\<^verbatim>\<open>s.trim()\<close>, for the ASCII white space characters.\<close>

definition is_space :: "char \<Rightarrow> bool" where
  "is_space c = ((of_char c :: nat) \<in> set [9, 10, 11, 12, 13, 32])"

definition js_trim :: "string \<Rightarrow> string" where
  "js_trim s = rev (dropWhile is_space (rev (dropWhile is_space s)))"

text \<open>A non-negative number inside a template literal, in decimal.\<close>

definition digit_char :: "nat \<Rightarrow> char" where
  "digit_char d = char_of (48 + d)"

function show_nat :: "nat \<Rightarrow> string" where
  "show_nat n = (if n < 10 then [digit_char n] else show_nat (n div 10) @ [digit_char (n mod 10)])"
  by pat_completeness auto
termination
  by (relation "measure id") auto

declare show_nat.simps [simp del]

text \<open>Exceptions, by the constructor the handlers test for, with their message.\<close>

datatype js_error = TypeError string | SyntaxError string | Error string

fun message :: "js_error \<Rightarrow> string" where
  "message (TypeError m) = m"
| "message (SyntaxError m) = m"
| "message (Error m) = m"

section \<open>Constants (utils/constants.ts)\<close>

definition MAX_CHAT_HISTORY :: int where
  "MAX_CHAT_HISTORY = 50"

definition MAX_CONTEXT_TOKENS :: int where
  "MAX_CONTEXT_TOKENS = 8000"

definition MAX_TOKENS :: int where
  "MAX_TOKENS = 1024"

definition TEMPERATURE :: real where
  "TEMPERATURE = 7 / 10"

definition BASE_URL :: string where
  "BASE_URL = ''https://api.anthropic.com/v1''"

definition SUMMARY_GENERATOR :: string where
  "SUMMARY_GENERATOR = ''Summarize the following conversation concisely, preserving key facts, questions asked, and insights provided. Focus on procurement-related topics and any specific contracts or organizations discussed.''"

section \<open>Chat types (types/index.ts)\<close>

datatype role = User | Assistant | System

fun role_name :: "role \<Rightarrow> string" where
  "role_name User = ''user''"
| "role_name Assistant = ''assistant''"
| "role_name System = ''system''"

record message_metadata =
  tokensUsed :: "int option"
  processingTime :: "int option"
  dataContext :: "string option"

text \<open>
  \<^verbatim>\<open>ChatMessage\<close>. The identifier comes from \<^verbatim>\<open>generateId()\<close> and the timestamp from
  \<^verbatim>\<open>new Date()\<close>; both are inputs of the model (milliseconds for the date).
\<close>

record ChatMessage =
  msg_id :: string
  role :: role
  content :: string
  timestamp :: int
  metadata :: "message_metadata option"

section \<open>The chat store (stores/chatStore.ts)\<close>

text \<open>The data fields of \<^verbatim>\<open>ChatState\<close>. Token counts are whole numbers reported by the API.\<close>

record ChatState =
  messages :: "ChatMessage list"
  isLoading :: bool
  error :: "string option"
  conversationSummary :: "string option"
  totalTokensUsed :: int
  sessionStarted :: "int option"

definition GREETING :: string where
  "GREETING = js_join [NEWLINE]
     [''Magandang araw! I'' @ [QUOTE] @ ''m SpendWatch AI, your intelligent assistant for exploring Philippine government procurement data.'',
      [],
      ''I can help you with:'',
      ''- **Spending Analysis**: Understanding procurement patterns and trends'',
      ''- **Contract Search**: Finding specific contracts, agencies, or suppliers'',
      ''- **Data Insights**: Identifying anomalies or notable patterns'',
      ''- **Regulatory Context**: Explaining procurement thresholds and processes'',
      [],
      ''What would you like to explore today?'']"

definition CLEARED_GREETING :: string where
  "CLEARED_GREETING = js_join [NEWLINE]
     [''Conversation cleared. I'' @ [QUOTE] @ ''m ready to help you explore Philippine government procurement data again!'',
      [],
      ''What would you like to know?'']"

text \<open>The state the store is created with; \<^verbatim>\<open>gid\<close> and \<^verbatim>\<open>now\<close> are the generated id and the clock.\<close>

definition initial_state :: "string \<Rightarrow> int \<Rightarrow> ChatState" where
  "initial_state gid now =
     \<lparr> messages = [\<lparr> msg_id = gid, role = Assistant, content = GREETING,
                      timestamp = now, metadata = None \<rparr>],
       isLoading = False,
       error = None,
       conversationSummary = None,
       totalTokensUsed = 0,
       sessionStarted = Some now \<rparr>"

text \<open>
  \<^verbatim>\<open>addMessage(role, content, metadata)\<close>: append, then keep the last
  \<^verbatim>\<open>MAX_CHAT_HISTORY\<close> entries when the list got longer than that. The TypeScript
  signature restricts the role argument to user and assistant; the body does not look at it.
\<close>

definition addMessage ::
  "string \<Rightarrow> int \<Rightarrow> role \<Rightarrow> string \<Rightarrow> message_metadata option \<Rightarrow> ChatState \<Rightarrow> ChatState" where
  "addMessage gid now r c md state =
     (let newMessage = \<lparr> msg_id = gid, role = r, content = c, timestamp = now, metadata = md \<rparr>;
          updatedMessages = messages state @ [newMessage]
      in if int (length updatedMessages) > MAX_CHAT_HISTORY
         then state\<lparr> messages := js_slice_from (- MAX_CHAT_HISTORY) updatedMessages \<rparr>
         else state\<lparr> messages := updatedMessages \<rparr>)"

text \<open>One call of \<^verbatim>\<open>addMessage\<close> with everything it consumes, and a run of such calls.\<close>

record add_call =
  call_id :: string
  call_time :: int
  call_role :: role
  call_content :: string
  call_metadata :: "message_metadata option"

definition apply_call :: "ChatState \<Rightarrow> add_call \<Rightarrow> ChatState" where
  "apply_call state c =
     addMessage (call_id c) (call_time c) (call_role c) (call_content c) (call_metadata c) state"

definition add_all :: "ChatState \<Rightarrow> add_call list \<Rightarrow> ChatState" where
  "add_all state cs = foldl apply_call state cs"

definition clearMessages :: "string \<Rightarrow> int \<Rightarrow> ChatState \<Rightarrow> ChatState" where
  "clearMessages gid now state =
     state\<lparr> messages := [\<lparr> msg_id = gid, role = Assistant, content = CLEARED_GREETING,
                             timestamp = now, metadata = None \<rparr>],
            conversationSummary := None,
            totalTokensUsed := 0,
            error := None \<rparr>"

definition setLoading :: "bool \<Rightarrow> ChatState \<Rightarrow> ChatState" where
  "setLoading loading state = state\<lparr> isLoading := loading \<rparr>"

definition setError :: "string option \<Rightarrow> ChatState \<Rightarrow> ChatState" where
  "setError e state = state\<lparr> error := e \<rparr>"

definition updateSummary :: "string \<Rightarrow> ChatState \<Rightarrow> ChatState" where
  "updateSummary summary state = state\<lparr> conversationSummary := Some summary \<rparr>"

definition addTokenUsage :: "int \<Rightarrow> ChatState \<Rightarrow> ChatState" where
  "addTokenUsage tokens state = state\<lparr> totalTokensUsed := totalTokensUsed state + tokens \<rparr>"

text \<open>An entry of the list sent to the API. The cast of the role does nothing at run time.\<close>

record api_message =
  api_role :: role
  api_content :: string

definition to_api :: "ChatMessage \<Rightarrow> api_message" where
  "to_api m = \<lparr> api_role = role m, api_content = content m \<rparr>"

definition summary_entry :: "string \<Rightarrow> api_message" where
  "summary_entry summary =
     \<lparr> api_role = User,
       api_content = ''[Previous conversation summary: '' @ summary @ '']'' \<rparr>"

definition is_api_role :: "ChatMessage \<Rightarrow> bool" where
  "is_api_role m = (role m = User \<or> role m = Assistant)"

definition getMessagesForAPI :: "ChatState \<Rightarrow> api_message list" where
  "getMessagesForAPI state =
     (let msgs = filter is_api_role (messages state)
      in if truthy (conversationSummary state) \<and> length msgs > 10
         then (let recentMessages = js_slice_from (- 6) msgs
               in summary_entry (the (conversationSummary state)) # map to_api recentMessages)
         else map to_api (js_slice_from (- 20) msgs))"

text \<open>
  \<^verbatim>\<open>shouldSummarize()\<close>. The product \<^verbatim>\<open>MAX_CONTEXT_TOKENS * 0.7\<close> is 5600 exactly in
  double precision as well, so the comparison is the one over the reals.
\<close>

definition shouldSummarize :: "ChatState \<Rightarrow> bool" where
  "shouldSummarize state =
     (length (messages state) > 15 \<and>
      (\<not> truthy (conversationSummary state) \<or>
       real_of_int (totalTokensUsed state) > real_of_int MAX_CONTEXT_TOKENS * (7 / 10)))"

text \<open>
  The message-list rule as the description of the store states it, over the stored
  messages: the summary entry and the last 6 stored messages when a non-empty summary
  exists and more than 10 messages are stored, the last 20 stored messages otherwise.
\<close>

definition claimed_api_messages :: "ChatState \<Rightarrow> api_message list" where
  "claimed_api_messages state =
     (let stored = messages state
      in if truthy (conversationSummary state) \<and> length stored > 10
         then summary_entry (the (conversationSummary state)) #
              map to_api (drop (length stored - 6) stored)
         else map to_api (drop (length stored - 20) stored))"

text \<open>
  What the persist middleware is configured to do: \<^verbatim>\<open>partialize\<close> saves the last 20
  messages, the summary and the token count, and a store created later starts from the
  initial state with these three fields restored.
\<close>

definition reload :: "string \<Rightarrow> int \<Rightarrow> ChatState \<Rightarrow> ChatState" where
  "reload gid now state =
     (initial_state gid now)\<lparr> messages := js_slice_from (- 20) (messages state),
                              conversationSummary := conversationSummary state,
                              totalTokensUsed := totalTokensUsed state \<rparr>"

text \<open>
  The ways the store's state changes: its six actions and a reload. A run applies a
  list of them; in a typed run every \<^verbatim>\<open>addMessage\<close> has the role user or assistant, as
  the signature of the action demands.
\<close>

datatype store_action =
  AddMessage add_call
| ClearMessages string int
| SetLoading bool
| SetError "string option"
| UpdateSummary string
| AddTokenUsage int
| Reload string int

fun apply_action :: "ChatState \<Rightarrow> store_action \<Rightarrow> ChatState" where
  "apply_action state (AddMessage c) = apply_call state c"
| "apply_action state (ClearMessages gid now) = clearMessages gid now state"
| "apply_action state (SetLoading loading) = setLoading loading state"
| "apply_action state (SetError e) = setError e state"
| "apply_action state (UpdateSummary summary) = updateSummary summary state"
| "apply_action state (AddTokenUsage tokens) = addTokenUsage tokens state"
| "apply_action state (Reload gid now) = reload gid now state"

fun typed_action :: "store_action \<Rightarrow> bool" where
  "typed_action (AddMessage c) = (call_role c = User \<or> call_role c = Assistant)"
| "typed_action _ = True"

definition run_store :: "ChatState \<Rightarrow> store_action list \<Rightarrow> ChatState" where
  "run_store state actions = foldl apply_action state actions"

section \<open>The HTTP exchange with the AI endpoint\<close>

text \<open>
  A request as the services build it. Fields a caller leaves out of the JSON body are
  \<^verbatim>\<open>None\<close>.
\<close>

record claude_request =
  req_url :: string
  req_api_key :: string
  req_model :: string
  req_max_tokens :: int
  req_temperature :: "real option"
  req_system :: "string option"
  req_stream :: bool
  req_messages :: "api_message list"

text \<open>
  What the code reads of a JSON body: \<^verbatim>\<open>error.message\<close>, \<^verbatim>\<open>content[0].text\<close> and the
  usage counts, each possibly missing.
\<close>

record json_body =
  error_message :: "string option"
  content_text :: "string option"
  input_tokens :: "int option"
  output_tokens :: "int option"

definition empty_object :: json_body where
  "empty_object = \<lparr> error_message = None, content_text = None, input_tokens = None,
                     output_tokens = None \<rparr>"

text \<open>\<^verbatim>\<open>response.json()\<close> resolves with the parsed body or rejects.\<close>

datatype json_result = JsonRejects js_error | JsonResolves json_body

record http_response =
  status :: nat
  json :: json_result

definition ok :: "http_response \<Rightarrow> bool" where
  "ok response = (200 \<le> status response \<and> status response \<le> 299)"

text \<open>\<^verbatim>\<open>fetch\<close> resolves with a response or rejects (a network failure is a TypeError).\<close>

datatype fetch_result = FetchRejects js_error | FetchResolves http_response

section \<open>The AI service (services/claudeService.ts)\<close>

record claude_params =
  apiKey :: string
  param_messages :: "api_message list"
  systemPrompt :: string
  maxTokens :: "int option"
  temperature :: "real option"

record claude_reply =
  reply_content :: string
  usage_input :: int
  usage_output :: int

definition MODEL :: string where
  "MODEL = ''claude-sonnet-4-5-20250929''"

definition send_request :: "claude_params \<Rightarrow> claude_request" where
  "send_request params =
     \<lparr> req_url = BASE_URL @ ''/messages'',
       req_api_key = apiKey params,
       req_model = MODEL,
       req_max_tokens = (case maxTokens params of None \<Rightarrow> MAX_TOKENS | Some n \<Rightarrow> n),
       req_temperature = Some (case temperature params of None \<Rightarrow> TEMPERATURE | Some t \<Rightarrow> t),
       req_system = Some (systemPrompt params),
       req_stream = False,
       req_messages = param_messages params \<rparr>"

text \<open>
  \<^verbatim>\<open>sendClaudeMessage\<close>: a rejected fetch and a rejected parse of a successful response
  propagate; a response that is not ok becomes an Error with the provider's message or
  the status.
\<close>

definition sendClaudeMessage ::
  "(claude_request \<Rightarrow> fetch_result) \<Rightarrow> claude_params \<Rightarrow> js_error + claude_reply" where
  "sendClaudeMessage fetch params =
     (case fetch (send_request params) of
        FetchRejects e \<Rightarrow> Inl e
      | FetchResolves response \<Rightarrow>
          if \<not> ok response then
            (let errorData = (case json response of JsonRejects _ \<Rightarrow> empty_object
                              | JsonResolves d \<Rightarrow> d)
             in Inl (Error (or_else (error_message errorData)
                              (''API error: '' @ show_nat (status response)))))
          else
            (case json response of
               JsonRejects e \<Rightarrow> Inl e
             | JsonResolves data \<Rightarrow>
                 Inr \<lparr> reply_content = or_else (content_text data) [],
                       usage_input = (case input_tokens data of None \<Rightarrow> 0 | Some n \<Rightarrow> n),
                       usage_output = (case output_tokens data of None \<Rightarrow> 0 | Some n \<Rightarrow> n) \<rparr>))"

definition conversationText :: "ChatMessage list \<Rightarrow> string" where
  "conversationText msgs =
     js_join [NEWLINE, NEWLINE] (map (\<lambda>m. role_name (role m) @ '': '' @ content m) msgs)"

definition SUMMARY_REQUEST_HEAD :: string where
  "SUMMARY_REQUEST_HEAD =
     ''Please summarize the following conversation about Philippine government procurement data. Focus on:''
     @ [NEWLINE] @ ''1. Key topics discussed''
     @ [NEWLINE] @ ''2. Specific contracts or organizations mentioned''
     @ [NEWLINE] @ ''3. Important insights or findings''
     @ [NEWLINE] @ ''4. Any follow-up questions or areas of interest''
     @ [NEWLINE, NEWLINE] @ ''Conversation:'' @ [NEWLINE]"

definition summarize_params :: "string \<Rightarrow> ChatMessage list \<Rightarrow> claude_params" where
  "summarize_params key msgs =
     \<lparr> apiKey = key,
       param_messages = [\<lparr> api_role = User,
                           api_content = SUMMARY_REQUEST_HEAD @ conversationText msgs \<rparr>],
       systemPrompt = SUMMARY_GENERATOR,
       maxTokens = Some 500,
       temperature = Some (3 / 10) \<rparr>"

definition summarizeConversation ::
  "(claude_request \<Rightarrow> fetch_result) \<Rightarrow> string \<Rightarrow> ChatMessage list \<Rightarrow> js_error + string" where
  "summarizeConversation fetch key msgs =
     (case sendClaudeMessage fetch (summarize_params key msgs) of
        Inl e \<Rightarrow> Inl e
      | Inr result \<Rightarrow> Inr (reply_content result))"

section \<open>The chat panel (components/chat/ChatPanel.tsx)\<close>

text \<open>
  What \<^verbatim>\<open>handleSend\<close> touches: the chat store, the two pieces of component state, and
  the outside world as far as the handler acts on it: whether the API-key dialog was
  requested, what was written to \<^verbatim>\<open>console.error\<close>, and the message lists handed to
  \<^verbatim>\<open>streamClaudeMessage\<close> and to \<^verbatim>\<open>summarizeConversation\<close>.
\<close>

record panel =
  chat :: ChatState
  inputValue :: string
  streamingContent :: string
  modal_requested :: bool
  console_errors :: "(string \<times> js_error) list"
  streamed :: "api_message list list"
  summarized :: "ChatMessage list list"

text \<open>
  \<^verbatim>\<open>streamClaudeMessage\<close> as its callbacks see it: the tokens given to \<^verbatim>\<open>onToken\<close>,
  then either \<^verbatim>\<open>onComplete\<close> with the concatenated response and the usage counts, or
  \<^verbatim>\<open>onError\<close> with an error.
\<close>

datatype stream_outcome =
  StreamCompletes "string list" int int
| StreamFails "string list" js_error

text \<open>The identifiers and clock readings a send consumes.\<close>

record send_env =
  user_id :: string
  user_time :: int
  reply_id :: string
  reply_time :: int

definition onToken :: "string \<Rightarrow> panel \<Rightarrow> panel" where
  "onToken token p = p\<lparr> streamingContent := streamingContent p @ token \<rparr>"

definition onError :: "js_error \<Rightarrow> panel \<Rightarrow> panel" where
  "onError err p =
     p\<lparr> streamingContent := [],
        chat := setLoading False (setError (Some (message err)) (chat p)) \<rparr>"

text \<open>
  \<^verbatim>\<open>onComplete\<close>. \<^verbatim>\<open>captured\<close> is the \<^verbatim>\<open>messages\<close> variable of the render that created
  the handler, which is what the call of \<^verbatim>\<open>summarizeConversation\<close> passes.
\<close>

definition onComplete ::
  "(claude_request \<Rightarrow> fetch_result) \<Rightarrow> string option \<Rightarrow> ChatMessage list \<Rightarrow> send_env \<Rightarrow>
   string \<Rightarrow> int \<Rightarrow> int \<Rightarrow> panel \<Rightarrow> panel" where
  "onComplete fetch key captured env fullResponse usage_in usage_out p =
     (let p1 = p\<lparr> streamingContent := [] \<rparr>;
          c1 = addMessage (reply_id env) (reply_time env) Assistant fullResponse
                 (Some \<lparr> tokensUsed = Some (usage_in + usage_out), processingTime = None,
                         dataContext = None \<rparr>) (chat p1);
          c2 = addTokenUsage (usage_in + usage_out) c1;
          c3 = setLoading False c2;
          p2 = p1\<lparr> chat := c3 \<rparr>
      in if shouldSummarize c3 \<and> truthy key then
           (let p3 = p2\<lparr> summarized := summarized p2 @ [captured] \<rparr>
            in case summarizeConversation fetch (the key) captured of
                 Inr newSummary \<Rightarrow> p3\<lparr> chat := updateSummary newSummary (chat p3) \<rparr>
               | Inl e \<Rightarrow>
                   p3\<lparr> console_errors := console_errors p3 @
                          [(''Failed to summarize conversation:'', e)] \<rparr>)
         else p2)"

text \<open>
  \<^verbatim>\<open>handleSend\<close>. \<^verbatim>\<open>messages\<close> and \<^verbatim>\<open>isLoading\<close> are the values the component read from
  the store when it rendered, that is, the store's values when the handler starts. The
  system prompt is computed from the data store and only passed on, so it is left out.
  \<^verbatim>\<open>streamClaudeMessage\<close> reports every failure through \<^verbatim>\<open>onError\<close>, so the outer
  \<^verbatim>\<open>catch\<close> of the handler has nothing to catch.
\<close>

definition handleSend ::
  "(claude_request \<Rightarrow> fetch_result) \<Rightarrow> string option \<Rightarrow> bool \<Rightarrow> send_env \<Rightarrow> stream_outcome \<Rightarrow>
   panel \<Rightarrow> panel" where
  "handleSend fetch key isValidated env stream p =
     (let captured = messages (chat p) in
      if js_trim (inputValue p) = [] \<or> isLoading (chat p) then p
      else if \<not> truthy key \<or> \<not> isValidated then p\<lparr> modal_requested := True \<rparr>
      else
        (let userMessage = js_trim (inputValue p);
             p1 = p\<lparr> inputValue := [] \<rparr>;
             p2 = p1\<lparr> chat := setError None (setLoading True
                      (addMessage (user_id env) (user_time env) User userMessage None (chat p1))) \<rparr>;
             p3 = p2\<lparr> streamingContent := [] \<rparr>;
             apiMessages = getMessagesForAPI (chat p3) @
                             [\<lparr> api_role = User, api_content = userMessage \<rparr>];
             p4 = p3\<lparr> streamed := streamed p3 @ [apiMessages] \<rparr>
         in case stream of
              StreamCompletes tokens usage_in usage_out \<Rightarrow>
                onComplete fetch key captured env (concat tokens) usage_in usage_out
                  (fold onToken tokens p4)
            | StreamFails tokens err \<Rightarrow> onError err (fold onToken tokens p4)))"

section \<open>The API key store (stores/apiKeyStore.ts)\<close>

definition validation_request :: "string \<Rightarrow> claude_request" where
  "validation_request key =
     \<lparr> req_url = ''https://api.anthropic.com/v1/messages'',
       req_api_key = key,
       req_model = MODEL,
       req_max_tokens = 10,
       req_temperature = None,
       req_system = None,
       req_stream = False,
       req_messages = [\<lparr> api_role = User, api_content = ''Hi'' \<rparr>] \<rparr>"

text \<open>The handler of the outer \<^verbatim>\<open>catch\<close> of \<^verbatim>\<open>validateApiKey\<close>.\<close>

definition rethrow :: "js_error \<Rightarrow> js_error" where
  "rethrow err =
     (case err of
        TypeError m \<Rightarrow>
          if js_includes m ''fetch''
          then Error ''Network error. Please check your internet connection.''
          else err
      | _ \<Rightarrow> err)"

definition validateApiKey :: "(claude_request \<Rightarrow> fetch_result) \<Rightarrow> string \<Rightarrow> js_error + bool" where
  "validateApiKey fetch key =
     (case fetch (validation_request key) of
        FetchRejects e \<Rightarrow> Inl (rethrow e)
      | FetchResolves response \<Rightarrow>
          if ok response then Inr True
          else
            (case json response of
               JsonRejects e \<Rightarrow> Inl (rethrow e)
             | JsonResolves errorData \<Rightarrow>
                 if status response = 401
                 then Inl (rethrow (Error ''Invalid API key. Please check and try again.''))
                 else if status response = 429 then Inr True
                 else Inl (rethrow (Error (or_else (error_message errorData)
                                      (''API error: '' @ show_nat (status response)))))))"


section \<open>The query service (services/duckdbService.ts)\<close>

text \<open>
  The columns of table \<^verbatim>\<open>contracts\<close> that the modelled queries read. Every column may
  be NULL (\<^verbatim>\<open>None\<close>). The type of the amounts is left open: the queries only compare
  amounts and hand them to the engine's \<^verbatim>\<open>SUM\<close>.
\<close>

record 'a contract_row =
  award_title :: "string option"
  awardee_name :: "string option"
  organization_name :: "string option"
  area_of_delivery :: "string option"
  business_category :: "string option"
  contract_amount :: "'a option"

text \<open>The module's \<^verbatim>\<open>connection\<close> variable, with the table as it was loaded.\<close>

datatype 'a connection = NotConnected | Connected "'a contract_row list"

text \<open>
  A row of the aggregate query as the engine returns it: the group's value of the
  column, \<^verbatim>\<open>SUM(contract_amount)\<close>, which is NULL when no row of the group has an amount,
  and \<^verbatim>\<open>COUNT(*)\<close>.
\<close>

record 'a sql_group =
  group_key :: string
  total_value :: "'a option"
  group_count :: nat

text \<open>A row of a breakdown; \<^verbatim>\<open>label\<close> is the \<^verbatim>\<open>area\<close> or the \<^verbatim>\<open>category\<close> field.\<close>

record 'a breakdown =
  label :: string
  totalValue :: 'a
  count :: nat

text \<open>
  \<^verbatim>\<open>SELECT col, SUM(contract_amount), COUNT(*) FROM contracts WHERE col IS NOT NULL AND
  col != '' GROUP BY col\<close>: one row per distinct value of the column, here in the order
  of first occurrence (the engine fixes no order before \<^verbatim>\<open>ORDER BY\<close>). The sum itself
  is the engine's: \<^verbatim>\<open>engine_sum\<close> is what \<^verbatim>\<open>SUM\<close> returns for the amounts of a group that
  are not NULL (for a floating-point column a rounded sum).
\<close>

definition group_totals ::
  "('a list \<Rightarrow> 'a) \<Rightarrow> ('a contract_row \<Rightarrow> string option) \<Rightarrow> 'a contract_row list \<Rightarrow> 'a sql_group list" where
  "group_totals engine_sum col rows =
     (let kept = filter (\<lambda>r. col r \<noteq> None \<and> col r \<noteq> Some []) rows;
          keys = remdups (map (\<lambda>r. the (col r)) kept)
      in map (\<lambda>k. let amounts = List.map_filter contract_amount (filter (\<lambda>r. col r = Some k) kept)
                   in \<lparr> group_key = k,
                        total_value = (case amounts of [] \<Rightarrow> None | _ \<Rightarrow> Some (engine_sum amounts)),
                        group_count = length (filter (\<lambda>r. col r = Some k) kept) \<rparr>) keys)"

text \<open>
  \<^verbatim>\<open>ORDER BY total_value DESC\<close>: the largest total first, NULL totals last (the engine's
  default); rows with equal totals keep their order.
\<close>

definition order_by_total_desc :: "('a::linorder) sql_group list \<Rightarrow> 'a sql_group list" where
  "order_by_total_desc gs =
     rev (sort_key (\<lambda>g. the (total_value g))
            (rev (filter (\<lambda>g. \<not> Option.is_none (total_value g)) gs)))
     @ filter (\<lambda>g. Option.is_none (total_value g)) gs"

text \<open>
  The object built from a result row: \<^verbatim>\<open>String(row.area)\<close>, \<^verbatim>\<open>Number(row.total_value)\<close>,
  \<^verbatim>\<open>Number(row.count)\<close>; \<^verbatim>\<open>Number(null)\<close> is 0.
\<close>

definition to_breakdown :: "('a::zero) sql_group \<Rightarrow> 'a breakdown" where
  "to_breakdown g =
     \<lparr> label = group_key g,
       totalValue = (case total_value g of None \<Rightarrow> 0 | Some t \<Rightarrow> t),
       count = group_count g \<rparr>"

definition getCategoryBreakdown ::
  "('a list \<Rightarrow> 'a) \<Rightarrow> ('a::{linorder,zero}) connection \<Rightarrow> js_error + 'a breakdown list" where
  "getCategoryBreakdown engine_sum conn =
     (case conn of
        NotConnected \<Rightarrow> Inl (Error ''DuckDB not initialized'')
      | Connected rows \<Rightarrow>
          Inr (map to_breakdown
                 (take 20 (order_by_total_desc (group_totals engine_sum business_category rows)))))"

definition getAreaBreakdown ::
  "('a list \<Rightarrow> 'a) \<Rightarrow> ('a::{linorder,zero}) connection \<Rightarrow> js_error + 'a breakdown list" where
  "getAreaBreakdown engine_sum conn =
     (case conn of
        NotConnected \<Rightarrow> Inl (Error ''DuckDB not initialized'')
      | Connected rows \<Rightarrow>
          Inr (map to_breakdown
                 (take 30 (order_by_total_desc (group_totals engine_sum area_of_delivery rows)))))"

text \<open>
  \<^verbatim>\<open>ORDER BY contract_amount DESC\<close>, the default order of \<^verbatim>\<open>queryContracts\<close>: the largest
  amount first, rows without an amount last; rows with equal amounts keep their order.
\<close>

definition order_by_amount_desc :: "('a::linorder) contract_row list \<Rightarrow> 'a contract_row list" where
  "order_by_amount_desc rows =
     rev (sort_key (\<lambda>r. the (contract_amount r))
            (rev (filter (\<lambda>r. \<not> Option.is_none (contract_amount r)) rows)))
     @ filter (\<lambda>r. Option.is_none (contract_amount r)) rows"

section \<open>The area breakdown of the single-file application (App.tsx)\<close>

text \<open>
  \<^verbatim>\<open>DuckDBService.getAreaBreakdown\<close> of App.tsx: the same grouping with
  \<^verbatim>\<open>COALESCE(SUM(contract_amount), 0) as amount\<close>, \<^verbatim>\<open>ORDER BY amount DESC\<close> and
  \<^verbatim>\<open>LIMIT 50\<close>.
\<close>

definition App_getAreaBreakdown ::
  "('a list \<Rightarrow> 'a) \<Rightarrow> ('a::{linorder,zero}) connection \<Rightarrow> js_error + 'a breakdown list" where
  "App_getAreaBreakdown engine_sum conn =
     (case conn of
        NotConnected \<Rightarrow> Inl (Error ''Not connected'')
      | Connected rows \<Rightarrow>
          Inr (take 50 (rev (sort_key totalValue
                 (rev (map to_breakdown (group_totals engine_sum area_of_delivery rows)))))))"

section \<open>The contract query (services/duckdbService.ts)\<close>

text \<open>
  The options of \<^verbatim>\<open>queryContracts\<close> that the model covers, \<^verbatim>\<open>limit\<close> and \<^verbatim>\<open>offset\<close>
  with their defaults (1000 and 0) filled in by the caller of the model; the amount and
  date bounds are left undefined and the order is the default one, by amount, largest
  first.
\<close>

record query_options =
  limit :: nat
  offset :: nat
  searchQuery :: "string option"
  area :: "string option"
  category :: "string option"

text \<open>\<^verbatim>\<open>s.replace(/'/g, "''")\<close>\<close>

definition escape_quotes :: "string \<Rightarrow> string" where
  "escape_quotes s = concat (map (\<lambda>c. if c = QUOTE then [QUOTE, QUOTE] else [c]) s)"

text \<open>The conditions as the function writes them into the query text.\<close>

definition search_condition :: "string \<Rightarrow> string" where
  "search_condition q =
     (let escaped = escape_quotes q in
      ''('' @ [NEWLINE] @
      ''      LOWER(award_title) LIKE '' @ [QUOTE] @ ''%'' @ toLowerCase escaped @ ''%'' @ [QUOTE] @ '' OR'' @ [NEWLINE] @
      ''      LOWER(awardee_name) LIKE '' @ [QUOTE] @ ''%'' @ toLowerCase escaped @ ''%'' @ [QUOTE] @ '' OR'' @ [NEWLINE] @
      ''      LOWER(organization_name) LIKE '' @ [QUOTE] @ ''%'' @ toLowerCase escaped @ ''%'' @ [QUOTE] @ [NEWLINE] @
      ''    )'')"

definition area_condition :: "string \<Rightarrow> string" where
  "area_condition a = ''area_of_delivery = '' @ [QUOTE] @ escape_quotes a @ [QUOTE]"

definition category_condition :: "string \<Rightarrow> string" where
  "category_condition c = ''business_category = '' @ [QUOTE] @ escape_quotes c @ [QUOTE]"

definition conditions :: "query_options \<Rightarrow> string list" where
  "conditions options =
     (if truthy (searchQuery options) then [search_condition (the (searchQuery options))] else []) @
     (if truthy (area options) then [area_condition (the (area options))] else []) @
     (if truthy (category options) then [category_condition (the (category options))] else [])"

definition whereClause :: "query_options \<Rightarrow> string" where
  "whereClause options =
     (if length (conditions options) > 0 then ''WHERE '' @ js_join '' AND '' (conditions options)
      else [])"

text \<open>
  How the engine reads the characters after an opening quote: two quotes in a row stand
  for one quote of the value, a single quote ends the literal. The result is the value
  and the text that follows the closing quote; without a closing quote there is none.
\<close>

fun sql_literal :: "string \<Rightarrow> (string \<times> string) option" where
  "sql_literal [] = None"
| "sql_literal [c] = (if c = QUOTE then Some ([], []) else None)"
| "sql_literal (c # d # ds) =
     (if c = QUOTE then
        (if d = QUOTE then map_option (apfst ((#) QUOTE)) (sql_literal ds)
         else Some ([], d # ds))
      else map_option (apfst ((#) c)) (sql_literal (d # ds)))"

text \<open>
  The value of the literal written as a quote, \<^verbatim>\<open>body\<close>, a quote; none when the body
  ends the literal early, which makes the query text malformed.
\<close>

definition literal_value :: "string \<Rightarrow> string option" where
  "literal_value body =
     (case sql_literal (body @ [QUOTE]) of
        Some (v, []) \<Rightarrow> Some v
      | _ \<Rightarrow> None)"

text \<open>
  \<^verbatim>\<open>LIKE\<close>: in the pattern a percent sign matches any run of characters and an
  underscore any one character; no escape character is set.
\<close>

fun like_match :: "string \<Rightarrow> string \<Rightarrow> bool" where
  "like_match [] [] = True"
| "like_match [] (c # cs) = False"
| "like_match (p # ps) [] = (p = CHR ''%'' \<and> like_match ps [])"
| "like_match (p # ps) (c # cs) =
     (if p = CHR ''%'' then like_match ps (c # cs) \<or> like_match (p # ps) cs
      else (p = CHR ''_'' \<or> p = c) \<and> like_match ps cs)"

text \<open>SQL truth values: \<^verbatim>\<open>None\<close> is NULL. A row passes \<^verbatim>\<open>WHERE\<close> when the value is true.\<close>

fun sql_or :: "bool option \<Rightarrow> bool option \<Rightarrow> bool option" where
  "sql_or (Some True) _ = Some True"
| "sql_or _ (Some True) = Some True"
| "sql_or (Some False) (Some False) = Some False"
| "sql_or _ _ = None"

fun sql_and :: "bool option \<Rightarrow> bool option \<Rightarrow> bool option" where
  "sql_and (Some False) _ = Some False"
| "sql_and _ (Some False) = Some False"
| "sql_and (Some True) (Some True) = Some True"
| "sql_and _ _ = None"

definition sql_lower :: "string option \<Rightarrow> string option" where
  "sql_lower v = map_option toLowerCase v"

definition sql_like :: "string option \<Rightarrow> string \<Rightarrow> bool option" where
  "sql_like v pattern = map_option (like_match pattern) v"

definition sql_equals :: "string option \<Rightarrow> string \<Rightarrow> bool option" where
  "sql_equals v lit = map_option (\<lambda>t. t = lit) v"

text \<open>
  The three conditions as the engine evaluates them on a row, each from the literal it
  reads between the quotes; none when that literal is malformed.
\<close>

definition search_filter :: "string \<Rightarrow> ('a contract_row \<Rightarrow> bool option) option" where
  "search_filter q =
     map_option
       (\<lambda>pattern r.
          sql_or (sql_or (sql_like (sql_lower (award_title r)) pattern)
                         (sql_like (sql_lower (awardee_name r)) pattern))
                 (sql_like (sql_lower (organization_name r)) pattern))
       (literal_value (''%'' @ toLowerCase (escape_quotes q) @ ''%''))"

definition area_filter :: "string \<Rightarrow> ('a contract_row \<Rightarrow> bool option) option" where
  "area_filter a =
     map_option (\<lambda>lit r. sql_equals (area_of_delivery r) lit) (literal_value (escape_quotes a))"

definition category_filter :: "string \<Rightarrow> ('a contract_row \<Rightarrow> bool option) option" where
  "category_filter c =
     map_option (\<lambda>lit r. sql_equals (business_category r) lit) (literal_value (escape_quotes c))"

definition filters :: "query_options \<Rightarrow> ('a contract_row \<Rightarrow> bool option) option list" where
  "filters options =
     (if truthy (searchQuery options) then [search_filter (the (searchQuery options))] else []) @
     (if truthy (area options) then [area_filter (the (area options))] else []) @
     (if truthy (category options) then [category_filter (the (category options))] else [])"

text \<open>
  \<^verbatim>\<open>queryContracts\<close>: the rows for which the conjunction of the conditions is true,
  in the order of \<^verbatim>\<open>order_by_amount_desc\<close>, then \<^verbatim>\<open>OFFSET\<close> and \<^verbatim>\<open>LIMIT\<close>. The engine rejects a
  malformed query text. The last step of the function, which copies each row into a
  \<^verbatim>\<open>ProcurementContract\<close>, is left out.
\<close>

definition queryContracts ::
  "('a::linorder) connection \<Rightarrow> query_options \<Rightarrow> js_error + 'a contract_row list" where
  "queryContracts conn options =
     (case conn of
        NotConnected \<Rightarrow> Inl (Error ''DuckDB not initialized'')
      | Connected rows \<Rightarrow>
          (case those (filters options) of
             None \<Rightarrow> Inl (Error ''Parser Error: syntax error'')
           | Some conds \<Rightarrow>
               (let passes = (\<lambda>r. foldr (\<lambda>f acc. sql_and (f r) acc) conds (Some True) = Some True)
                in Inr (take (limit options) (drop (offset options)
                          (order_by_amount_desc (filter passes rows)))))))"

section \<open>The summary input of the single-file application (App.tsx)\<close>

text \<open>
  \<^verbatim>\<open>xs.slice(start, end)\<close> with both bounds resolved like the start of
  \<^verbatim>\<open>xs.slice(start)\<close>; an end before the start gives the empty array.
\<close>

definition js_slice :: "int \<Rightarrow> int \<Rightarrow> 'a list \<Rightarrow> 'a list" where
  "js_slice start end xs =
     (let len = int (length xs);
          k = (if start < 0 then max (len + start) 0 else min start len);
          e = (if end < 0 then max (len + end) 0 else min end len)
      in take (nat (e - k)) (drop (nat k) xs))"

definition BUFFER_WINDOW_SIZE :: int where
  "BUFFER_WINDOW_SIZE = 8"

text \<open>
  \<^verbatim>\<open>generateConversationSummary\<close> of App.tsx summarizes
  \<^verbatim>\<open>messages.slice(0, -MEMORY_CONFIG.BUFFER_WINDOW_SIZE)\<close>.
\<close>

definition messagesToSummarize :: "ChatMessage list \<Rightarrow> ChatMessage list" where
  "messagesToSummarize msgs = js_slice 0 (- BUFFER_WINDOW_SIZE) msgs"

section \<open>Example states\<close>

definition example_message :: "role \<Rightarrow> string \<Rightarrow> ChatMessage" where
  "example_message r c =
     \<lparr> msg_id = c, role = r, content = c, timestamp = 0, metadata = None \<rparr>"

definition example_state :: "ChatMessage list \<Rightarrow> string option \<Rightarrow> int \<Rightarrow> ChatState" where
  "example_state ms summary tokens =
     \<lparr> messages = ms, isLoading = False, error = None, conversationSummary = summary,
       totalTokensUsed = tokens, sessionStarted = None \<rparr>"

text \<open>Ten turns of a conversation, and the same ten behind one stored system message.\<close>

definition ten_turns :: "ChatMessage list" where
  "ten_turns =
     [example_message User ''q1'', example_message Assistant ''a1'',
      example_message User ''q2'', example_message Assistant ''a2'',
      example_message User ''q3'', example_message Assistant ''a3'',
      example_message User ''q4'', example_message Assistant ''a4'',
      example_message User ''q5'', example_message Assistant ''a5'']"

definition state_with_system_message :: ChatState where
  "state_with_system_message =
     example_state (example_message System ''note'' # ten_turns) (Some ''S'') 0"

definition fifteen_messages :: "ChatMessage list" where
  "fifteen_messages =
     example_message Assistant ''hello'' # ten_turns @
     [example_message User ''q6'', example_message Assistant ''a6'',
      example_message User ''q7'', example_message Assistant ''a7'']"

definition example_panel :: panel where
  "example_panel =
     \<lparr> chat = example_state fifteen_messages None 0,
       inputValue = '' which agency spent most? '',
       streamingContent = [],
       modal_requested = False,
       console_errors = [],
       streamed = [],
       summarized = [] \<rparr>"

definition example_env :: send_env where
  "example_env = \<lparr> user_id = ''id-16'', user_time = 16, reply_id = ''id-17'', reply_time = 17 \<rparr>"

definition summary_service :: "claude_request \<Rightarrow> fetch_result" where
  "summary_service request =
     FetchResolves \<lparr> status = 200,
       json = JsonResolves \<lparr> error_message = None, content_text = Some ''They discussed agencies.'',
                              input_tokens = Some 400, output_tokens = Some 30 \<rparr> \<rparr>"

definition offline :: "claude_request \<Rightarrow> fetch_result" where
  "offline request = FetchRejects (TypeError ''Failed to fetch'')"

definition summarized_panel :: panel where
  "summarized_panel =
     example_panel\<lparr> chat := example_state fifteen_messages (Some ''Earlier: road works.'') 6000 \<rparr>"

text \<open>Thirty-one contracts in thirty-one areas, and a small table of three contracts.\<close>

definition numbered_area :: "nat \<Rightarrow> int contract_row" where
  "numbered_area n =
     \<lparr> award_title = None, awardee_name = None, organization_name = None,
       area_of_delivery = Some (''Area '' @ show_nat n), business_category = Some ''Goods'',
       contract_amount = Some (int n) \<rparr>"

definition thirty_one_areas :: "int contract_row list" where
  "thirty_one_areas = map numbered_area [1..<32]"

definition three_contracts :: "int contract_row list" where
  "three_contracts =
     [\<lparr> award_title = Some ''Road repair'', awardee_name = Some ''ABC Builders'',
        organization_name = Some ''DPWH'', area_of_delivery = Some ''Metro Manila'',
        business_category = Some ''Construction'', contract_amount = Some 500 \<rparr>,
      \<lparr> award_title = Some ''Medical Supplies for COVID-19 Prevention'',
        awardee_name = Some ''MedCo'', organization_name = Some ''DOH'',
        area_of_delivery = Some ''Cebu'', business_category = Some ''Medical'',
        contract_amount = Some 900 \<rparr>,
      \<lparr> award_title = Some ''Bridge'', awardee_name = None,
        organization_name = Some ''DPWH'', area_of_delivery = Some ''Metro Manila'',
        business_category = None, contract_amount = Some 300 \<rparr>]"

section \<open>Facts about the helpers\<close>

lemma js_slice_from_neg:
  "0 < n \<Longrightarrow> js_slice_from (- int n) xs = drop (length xs - n) xs"
  by (auto simp: js_slice_from_def Let_def max_def nat_diff_distrib'
      intro: arg_cong [where f = "\<lambda>k. drop k xs"])

lemmas js_slice_last_6 = js_slice_from_neg [of 6, simplified]
lemmas js_slice_last_20 = js_slice_from_neg [of 20, simplified]
lemmas js_slice_last_50 = js_slice_from_neg [of 50, simplified]

section \<open>The stored history is bounded\<close>

lemma length_addMessage:
  "int (length (messages (addMessage gid now r c md s))) \<le> MAX_CHAT_HISTORY"
  by (simp add: addMessage_def Let_def MAX_CHAT_HISTORY_def js_slice_last_50)

lemma messages_addMessage:
  "messages (addMessage gid now r c md s) =
     drop (Suc (length (messages s)) - nat MAX_CHAT_HISTORY)
       (messages s @ [\<lparr> msg_id = gid, role = r, content = c, timestamp = now, metadata = md \<rparr>])"
  by (simp add: addMessage_def Let_def MAX_CHAT_HISTORY_def js_slice_last_50)

lemma length_add_all:
  "int (length (messages s)) \<le> MAX_CHAT_HISTORY \<Longrightarrow>
   int (length (messages (add_all s cs))) \<le> MAX_CHAT_HISTORY"
  unfolding add_all_def
  by (induction cs arbitrary: s) (simp_all add: apply_call_def length_addMessage)

lemma length_initial_state: "int (length (messages (initial_state gid now))) \<le> MAX_CHAT_HISTORY"
  by (simp add: initial_state_def MAX_CHAT_HISTORY_def)

lemma add_all_Cons: "add_all s (c # cs) = add_all (apply_call s c) cs"
  by (simp add: add_all_def)

text \<open>
  C1. After any call of addMessage the stored list has at most MAX_CHAT_HISTORY = 50
  entries, whatever the role, the content and the state before; the list it leaves is
  the old list with the new message appended, cut from the front to its last 50 entries
  (the oldest go first, the new message stays). So the bound holds after every run of
  calls from the initial state, and after every run of one or more calls from any state.
  The operation is a total function on states: it has no error result.
\<close>

theorem addMessage_keeps_last_50:
  "int (length (messages (addMessage gid now r c md s))) \<le> MAX_CHAT_HISTORY
   \<and> MAX_CHAT_HISTORY = 50
   \<and> messages (addMessage gid now r c md s) =
       drop (Suc (length (messages s)) - 50)
         (messages s @ [\<lparr> msg_id = gid, role = r, content = c, timestamp = now, metadata = md \<rparr>])
   \<and> int (length (messages (add_all (initial_state g0 t0) cs))) \<le> MAX_CHAT_HISTORY
   \<and> int (length (messages (add_all s (c0 # cs)))) \<le> MAX_CHAT_HISTORY"
proof -
  have "int (length (messages (apply_call s c0))) \<le> MAX_CHAT_HISTORY"
    by (simp add: apply_call_def length_addMessage)
  then have "int (length (messages (add_all s (c0 # cs)))) \<le> MAX_CHAT_HISTORY"
    unfolding add_all_Cons by (rule length_add_all)
  moreover have "int (length (messages (add_all (initial_state g0 t0) cs))) \<le> MAX_CHAT_HISTORY"
    by (rule length_add_all [OF length_initial_state])
  moreover have "messages (addMessage gid now r c md s) =
       drop (Suc (length (messages s)) - 50)
         (messages s @ [\<lparr> msg_id = gid, role = r, content = c, timestamp = now, metadata = md \<rparr>])"
    using messages_addMessage [of gid now r c md s] by (simp add: MAX_CHAT_HISTORY_def)
  ultimately show ?thesis
    by (simp add: length_addMessage) (simp add: MAX_CHAT_HISTORY_def)
qed

section \<open>When to summarize\<close>

text \<open>
  C2. shouldSummarize is a function of the state alone. It holds exactly when more than
  15 messages are stored and either there is no summary (null, or the empty text the
  store treats the same way) or the tokens used exceed 70 percent of MAX_CONTEXT_TOKENS
  = 8000; with 15 stored messages or fewer it is false whatever the token count.
\<close>

theorem shouldSummarize_iff:
  "(shouldSummarize s \<longleftrightarrow>
      15 < length (messages s) \<and>
      (conversationSummary s = None \<or> conversationSummary s = Some [] \<or>
       7 * MAX_CONTEXT_TOKENS < 10 * totalTokensUsed s))
   \<and> MAX_CONTEXT_TOKENS = 8000
   \<and> (length (messages s) \<le> 15 \<longrightarrow> \<not> shouldSummarize s)"
  by (cases "conversationSummary s") (auto simp: shouldSummarize_def MAX_CONTEXT_TOKENS_def)

theorem shouldSummarize_iff_witness:
  "length (messages (example_state ten_turns None 1000000)) \<le> 15
   \<and> \<not> shouldSummarize (example_state ten_turns None 1000000)
   \<and> 15 < length (messages (example_state (ten_turns @ ten_turns) (Some ''S'') 5601))
   \<and> shouldSummarize (example_state (ten_turns @ ten_turns) (Some ''S'') 5601)
   \<and> \<not> shouldSummarize (example_state (ten_turns @ ten_turns) (Some ''S'') 5600)
   \<and> shouldSummarize (example_state (ten_turns @ ten_turns) (Some []) 0)"
  using shouldSummarize_iff [of "example_state ten_turns None 1000000"]
    shouldSummarize_iff [of "example_state (ten_turns @ ten_turns) (Some ''S'') 5601"]
    shouldSummarize_iff [of "example_state (ten_turns @ ten_turns) (Some ''S'') 5600"]
    shouldSummarize_iff [of "example_state (ten_turns @ ten_turns) (Some []) 0"]
  by (simp add: example_state_def ten_turns_def)

section \<open>Clearing the conversation\<close>

text \<open>
  C4. clearMessages leaves exactly one message, the assistant's synthetic greeting, no
  summary, a token count of zero and no error, whatever the state before.
\<close>

theorem clearMessages_resets:
  "messages (clearMessages gid now s) =
     [\<lparr> msg_id = gid, role = Assistant, content = CLEARED_GREETING, timestamp = now,
        metadata = None \<rparr>]
   \<and> length (messages (clearMessages gid now s)) = 1
   \<and> conversationSummary (clearMessages gid now s) = None
   \<and> totalTokensUsed (clearMessages gid now s) = 0
   \<and> error (clearMessages gid now s) = None"
  by (simp add: clearMessages_def)

section \<open>The message list for the API\<close>

lemma set_getMessagesForAPI:
  "e \<in> set (getMessagesForAPI s) \<Longrightarrow> api_role e = User \<or> api_role e = Assistant"
  by (auto simp: getMessagesForAPI_def Let_def js_slice_last_6 js_slice_last_20
      to_api_def summary_entry_def is_api_role_def dest!: in_set_dropD split: if_splits)

text \<open>
  C10. Every entry of the list built by getMessagesForAPI has the role user or
  assistant, so no entry has the role system; stored messages with another role are
  dropped before anything else is computed: the result is the one for the state that
  holds only the user and assistant messages.
\<close>

theorem getMessagesForAPI_roles:
  "(\<forall>e \<in> set (getMessagesForAPI s). api_role e = User \<or> api_role e = Assistant)
   \<and> System \<notin> api_role ` set (getMessagesForAPI s)
   \<and> getMessagesForAPI s = getMessagesForAPI (s\<lparr> messages := filter is_api_role (messages s) \<rparr>)"
proof -
  have "\<forall>e \<in> set (getMessagesForAPI s). api_role e = User \<or> api_role e = Assistant"
    using set_getMessagesForAPI by blast
  moreover from this have "System \<notin> api_role ` set (getMessagesForAPI s)"
    by force
  moreover have "getMessagesForAPI s =
      getMessagesForAPI (s\<lparr> messages := filter is_api_role (messages s) \<rparr>)"
    by (simp add: getMessagesForAPI_def Let_def)
  ultimately show ?thesis by blast
qed

theorem getMessagesForAPI_roles_witness:
  "System \<in> role ` set (messages state_with_system_message)
   \<and> System \<notin> api_role ` set (getMessagesForAPI state_with_system_message)
   \<and> getMessagesForAPI state_with_system_message = map to_api ten_turns"
proof -
  have "getMessagesForAPI state_with_system_message = map to_api ten_turns"
    by (simp add: getMessagesForAPI_def state_with_system_message_def example_state_def
        ten_turns_def example_message_def is_api_role_def js_slice_last_20)
  moreover have "System \<in> role ` set (messages state_with_system_message)"
    by (simp add: state_with_system_message_def example_state_def example_message_def)
  moreover have "System \<notin> api_role ` set (getMessagesForAPI state_with_system_message)"
    using getMessagesForAPI_roles [of state_with_system_message] by blast
  ultimately show ?thesis by blast
qed



text \<open>
  The store only ever holds user and assistant messages: the initial state does, and
  every action of a typed run and every reload keeps it so.
\<close>

lemma turns_only_apply_action:
  assumes "list_all is_api_role (messages s)" and "typed_action a"
  shows "list_all is_api_role (messages (apply_action s a))"
proof (cases a)
  case (AddMessage c)
  with assms show ?thesis
    by (auto simp: apply_call_def addMessage_def Let_def MAX_CHAT_HISTORY_def js_slice_last_50
        is_api_role_def list_all_iff dest: in_set_dropD)
next
  case (ClearMessages gid now)
  then show ?thesis by (simp add: clearMessages_def is_api_role_def)
next
  case (Reload gid now)
  with assms show ?thesis
    by (auto simp: reload_def js_slice_last_20 list_all_iff dest: in_set_dropD)
qed (use assms in \<open>simp_all add: setLoading_def setError_def updateSummary_def addTokenUsage_def\<close>)

lemma turns_only_run_store:
  "list_all is_api_role (messages s) \<Longrightarrow> list_all typed_action actions \<Longrightarrow>
   list_all is_api_role (messages (run_store s actions))"
  unfolding run_store_def
  by (induction actions arbitrary: s) (simp_all add: turns_only_apply_action)

lemma turns_only_initial_state: "list_all is_api_role (messages (initial_state gid now))"
  by (simp add: initial_state_def is_api_role_def)

lemma turns_only_reachable:
  "list_all typed_action actions \<Longrightarrow>
   \<forall>m \<in> set (messages (run_store (initial_state gid now) actions)). role m = User \<or> role m = Assistant"
  using turns_only_run_store [OF turns_only_initial_state, of actions gid now]
  by (simp add: list_all_iff is_api_role_def)



text \<open>
  The rule holds at the end of a typed run of the store: eleven messages are added to
  the initial state and a summary is set, and the list sent is the summary entry and
  the last six messages.
\<close>

lemma getMessagesForAPI_after_run:
  assumes "list_all typed_action actions"
  shows "getMessagesForAPI (run_store (initial_state gid now) actions)
     = claimed_api_messages (run_store (initial_state gid now) actions)"
proof -
  have "filter is_api_role (messages (run_store (initial_state gid now) actions))
      = messages (run_store (initial_state gid now) actions)"
    using turns_only_run_store [OF turns_only_initial_state assms, of gid now]
    by (simp add: list_all_iff)
  then show ?thesis
    by (simp add: getMessagesForAPI_def claimed_api_messages_def Let_def js_slice_last_6
        js_slice_last_20)
qed

text \<open>
  Only a state that holds a message of another role, which no action of the store
  produces, makes the role filter visible: the system message is neither sent nor
  counted.
\<close>

lemma getMessagesForAPI_skips_system_message:
  "length (messages state_with_system_message) = 11
   \<and> getMessagesForAPI state_with_system_message = map to_api ten_turns
   \<and> length (getMessagesForAPI state_with_system_message) = 10"
  by (simp add: getMessagesForAPI_def state_with_system_message_def
      example_state_def ten_turns_def example_message_def is_api_role_def js_slice_last_20)

section \<open>Sending a message from the chat panel\<close>

lemmas panel_simps = handleSend_def onComplete_def onError_def onToken_def
  addMessage_def addTokenUsage_def setLoading_def setError_def updateSummary_def
  shouldSummarize_def MAX_CHAT_HISTORY_def MAX_CONTEXT_TOKENS_def Let_def

lemma js_trim_example: "js_trim '' which agency spent most? '' = ''which agency spent most?''"
  by (simp add: js_trim_def is_space_def)

lemma summarizeConversation_summary_service: "summarizeConversation summary_service k ms = Inr ''They discussed agencies.''"
  by (simp add: summarizeConversation_def sendClaudeMessage_def summary_service_def ok_def or_else_def)

lemma summarizeConversation_offline: "summarizeConversation offline k ms = Inl (TypeError ''Failed to fetch'')"
  by (simp add: summarizeConversation_def sendClaudeMessage_def offline_def)

lemma handleSend_example:
  "handleSend summary_service (Some ''sk-ant-key'') True example_env
      (StreamCompletes [''The '', ''DPWH.''] 900 40) example_panel =
   example_panel\<lparr>
     inputValue := [],
     chat := example_state
       (fifteen_messages @
        [\<lparr> msg_id = ''id-16'', role = User, content = ''which agency spent most?'',
            timestamp = 16, metadata = None \<rparr>,
         \<lparr> msg_id = ''id-17'', role = Assistant, content = ''The DPWH.'', timestamp = 17,
            metadata = Some \<lparr> tokensUsed = Some 940, processingTime = None,
                              dataContext = None \<rparr> \<rparr>])
       (Some ''They discussed agencies.'') 940,
     streamed := [map to_api (fifteen_messages @
        [\<lparr> msg_id = ''id-16'', role = User, content = ''which agency spent most?'',
            timestamp = 16, metadata = None \<rparr>]) @
        [\<lparr> api_role = User, api_content = ''which agency spent most?'' \<rparr>]],
     summarized := [fifteen_messages] \<rparr>"
  by (simp add: panel_simps js_trim_example summarizeConversation_summary_service
      example_panel_def example_state_def fifteen_messages_def ten_turns_def example_env_def
      getMessagesForAPI_def is_api_role_def example_message_def js_slice_last_20)

text \<open>
  C5 on the code. The chat holds 15 messages and no summary; the user sends a question
  and the reply completes, so 17 messages are stored and shouldSummarize holds. The
  panel hands summarizeConversation the 15 messages it captured when the send began,
  all of them: the list is not the stored list without its last 8 (what the single-file
  application summarizes) nor without its last 6, and it contains the message a7, which
  is among the 6 most recent stored messages and whose line is part of the transcript.
\<close>

theorem summarized_list_keeps_recent_tail:
  "summarized (handleSend summary_service (Some ''sk-ant-key'') True example_env
      (StreamCompletes [''The '', ''DPWH.''] 900 40) example_panel) = [fifteen_messages]
   \<and> length (messages (chat (handleSend summary_service (Some ''sk-ant-key'') True example_env
      (StreamCompletes [''The '', ''DPWH.''] 900 40) example_panel))) = 17
   \<and> length fifteen_messages = 15
   \<and> length (messagesToSummarize (messages (chat (handleSend summary_service
      (Some ''sk-ant-key'') True example_env
      (StreamCompletes [''The '', ''DPWH.''] 900 40) example_panel)))) = 9
   \<and> example_message Assistant ''a7'' \<in> set fifteen_messages
   \<and> example_message Assistant ''a7'' \<in> set (js_slice_from (- 6) (messages (chat (handleSend
      summary_service (Some ''sk-ant-key'') True example_env
      (StreamCompletes [''The '', ''DPWH.''] 900 40) example_panel))))
   \<and> js_includes (conversationText fifteen_messages) ''assistant: a7''"
proof -
  have "js_includes (conversationText fifteen_messages) ''assistant: a7''"
    by code_simp
  then show ?thesis
    unfolding handleSend_example
    by (simp add: example_panel_def example_state_def ten_turns_def
        messagesToSummarize_def js_slice_def BUFFER_WINDOW_SIZE_def js_slice_last_6
        example_message_def fifteen_messages_def [unfolded example_message_def ten_turns_def])
qed

theorem summarized_list_keeps_recent_tail_witness:
  "hd (summarized (handleSend summary_service (Some ''sk-ant-key'') True example_env
      (StreamCompletes [''The '', ''DPWH.''] 900 40) example_panel))
   \<noteq> messagesToSummarize (messages (chat (handleSend summary_service
      (Some ''sk-ant-key'') True example_env
      (StreamCompletes [''The '', ''DPWH.''] 900 40) example_panel)))"
proof
  assume same: "hd (summarized (handleSend summary_service (Some ''sk-ant-key'') True example_env
      (StreamCompletes [''The '', ''DPWH.''] 900 40) example_panel))
   = messagesToSummarize (messages (chat (handleSend summary_service
      (Some ''sk-ant-key'') True example_env
      (StreamCompletes [''The '', ''DPWH.''] 900 40) example_panel)))"
  have "length (hd (summarized (handleSend summary_service (Some ''sk-ant-key'') True
      example_env (StreamCompletes [''The '', ''DPWH.''] 900 40) example_panel))) = 15"
    using summarized_list_keeps_recent_tail by (metis list.sel(1))
  moreover have "length (messagesToSummarize (messages (chat (handleSend summary_service
      (Some ''sk-ant-key'') True example_env
      (StreamCompletes [''The '', ''DPWH.''] 900 40) example_panel)))) = 9"
    using summarized_list_keeps_recent_tail by blast
  ultimately show False
    unfolding same by simp
qed

text \<open>
  C6. Take a send that goes through (non-blank input, not loading, a validated key)
  and whose stream completes, and let turn be the chat state once the reply is stored.
  If shouldSummarize holds there and the summarization call throws, whatever the error,
  the handler finishes with the chat state turn: the summary is the one stored before
  the send, the error field is null, and the only trace of the failure is one more
  entry in the console error log.
\<close>

theorem failed_summarization_is_silent:
  fixes p :: panel and env :: send_env and tokens :: "string list"
    and usage_in usage_out :: int and key :: "string option" and isValidated :: bool
    and fetch :: "claude_request \<Rightarrow> fetch_result"
  defines "turn \<equiv>
     setLoading False (addTokenUsage (usage_in + usage_out)
       (addMessage (reply_id env) (reply_time env) Assistant (concat tokens)
          (Some \<lparr> tokensUsed = Some (usage_in + usage_out), processingTime = None,
                  dataContext = None \<rparr>)
          (setError None (setLoading True
             (addMessage (user_id env) (user_time env) User (js_trim (inputValue p)) None
                (chat p))))))"
  defines "p' \<equiv> handleSend fetch key isValidated env (StreamCompletes tokens usage_in usage_out) p"
  assumes typed: "js_trim (inputValue p) \<noteq> []" and idle: "\<not> isLoading (chat p)"
    and keyed: "truthy key" and valid: "isValidated"
    and triggered: "shouldSummarize turn"
    and fails: "summarizeConversation fetch (the key) (messages (chat p)) = Inl e"
  shows "conversationSummary (chat p') = conversationSummary (chat p)
       \<and> error (chat p') = None
       \<and> console_errors p' = console_errors p @ [(''Failed to summarize conversation:'', e)]
       \<and> chat p' = turn"
proof -
  have fold_chat: "chat (fold onToken ts q) = chat q" for ts q
    by (induction ts arbitrary: q) (simp_all add: onToken_def)
  have fold_errors: "console_errors (fold onToken ts q) = console_errors q" for ts q
    by (induction ts arbitrary: q) (simp_all add: onToken_def)
  have fold_summarized: "summarized (fold onToken ts q) = summarized q" for ts q
    by (induction ts arbitrary: q) (simp_all add: onToken_def)
  have summary_turn: "conversationSummary turn = conversationSummary (chat p)"
    by (simp add: turn_def setLoading_def addTokenUsage_def addMessage_def setError_def Let_def)
  have error_turn: "error turn = None"
    by (simp add: turn_def setLoading_def addTokenUsage_def addMessage_def setError_def Let_def)
  have "p' = (let q = fold onToken tokens
                 (p\<lparr> inputValue := [],
                     chat := setError None (setLoading True
                        (addMessage (user_id env) (user_time env) User (js_trim (inputValue p))
                           None (chat p))),
                     streamingContent := [],
                     streamed := streamed p @
                        [getMessagesForAPI (setError None (setLoading True
                           (addMessage (user_id env) (user_time env) User
                              (js_trim (inputValue p)) None (chat p)))) @
                         [\<lparr> api_role = User, api_content = js_trim (inputValue p) \<rparr>]] \<rparr>)
              in onComplete fetch key (messages (chat p)) env (concat tokens) usage_in usage_out q)"
    using typed idle keyed valid by (simp add: p'_def handleSend_def Let_def)
  then have "p' = (fold onToken tokens
                 (p\<lparr> inputValue := [],
                     chat := setError None (setLoading True
                        (addMessage (user_id env) (user_time env) User (js_trim (inputValue p))
                           None (chat p))),
                     streamingContent := [],
                     streamed := streamed p @
                        [getMessagesForAPI (setError None (setLoading True
                           (addMessage (user_id env) (user_time env) User
                              (js_trim (inputValue p)) None (chat p)))) @
                         [\<lparr> api_role = User, api_content = js_trim (inputValue p) \<rparr>]] \<rparr>))
          \<lparr> streamingContent := [], chat := turn,
            summarized := summarized p @ [messages (chat p)],
            console_errors := console_errors p @ [(''Failed to summarize conversation:'', e)] \<rparr>"
    using keyed triggered fails
    by (simp add: onComplete_def Let_def fold_chat fold_errors fold_summarized turn_def)
  then have "chat p' = turn"
    and "console_errors p' = console_errors p @ [(''Failed to summarize conversation:'', e)]"
    by simp_all
  then show ?thesis
    using summary_turn error_turn by simp
qed

lemma js_trim_example_nonempty: "js_trim '' which agency spent most? '' \<noteq> []"
  by (simp add: js_trim_example)

theorem failed_summarization_is_silent_witness:
  "conversationSummary (chat (handleSend offline (Some ''sk-ant-key'') True example_env
      (StreamCompletes [''The '', ''DPWH.''] 900 40) summarized_panel)) = Some ''Earlier: road works.''
   \<and> error (chat (handleSend offline (Some ''sk-ant-key'') True example_env
      (StreamCompletes [''The '', ''DPWH.''] 900 40) summarized_panel)) = None
   \<and> console_errors (handleSend offline (Some ''sk-ant-key'') True example_env
      (StreamCompletes [''The '', ''DPWH.''] 900 40) summarized_panel)
      = [(''Failed to summarize conversation:'', TypeError ''Failed to fetch'')]"
proof -
  have 1: "js_trim (inputValue summarized_panel) \<noteq> []"
    by (simp add: summarized_panel_def example_panel_def js_trim_example_nonempty)
  have 2: "\<not> isLoading (chat summarized_panel)"
    by (simp add: summarized_panel_def example_state_def)
  have 3: "truthy (Some ''sk-ant-key'')" by simp
  have 4: "shouldSummarize
     (setLoading False (addTokenUsage (900 + 40)
       (addMessage (reply_id example_env) (reply_time example_env) Assistant
          (concat [''The '', ''DPWH.''])
          (Some \<lparr> tokensUsed = Some (900 + 40), processingTime = None, dataContext = None \<rparr>)
          (setError None (setLoading True
             (addMessage (user_id example_env) (user_time example_env) User
                (js_trim (inputValue summarized_panel)) None (chat summarized_panel)))))))"
    by (simp add: shouldSummarize_def setLoading_def addTokenUsage_def addMessage_def
        setError_def Let_def summarized_panel_def example_state_def fifteen_messages_def
        ten_turns_def MAX_CHAT_HISTORY_def MAX_CONTEXT_TOKENS_def)
  have 5: "summarizeConversation offline (the (Some ''sk-ant-key''))
      (messages (chat summarized_panel)) = Inl (TypeError ''Failed to fetch'')"
    by (rule summarizeConversation_offline)
  have 6: "conversationSummary (chat summarized_panel) = Some ''Earlier: road works.''"
    and 7: "console_errors summarized_panel = []"
    by (simp_all add: summarized_panel_def example_state_def example_panel_def)
  show ?thesis
    using failed_summarization_is_silent [OF 1 2 3 TrueI 4 5]
    unfolding 6 7 append_Nil by blast
qed

section \<open>Validating an API key\<close>

text \<open>With a body that parses, validateApiKey answers by the status alone.\<close>

lemma validateApiKey_json:
  "fetch (validation_request key) = FetchResolves r \<Longrightarrow> json r = JsonResolves d \<Longrightarrow>
   validateApiKey fetch key =
     (if ok r \<or> status r = 429 then Inr True
      else if status r = 401 then Inl (Error ''Invalid API key. Please check and try again.'')
      else Inl (Error (or_else (error_message d) (''API error: '' @ show_nat (status r)))))"
  by (simp add: validateApiKey_def rethrow_def ok_def)

text \<open>
  C9 on the code. The body of a response that is not ok is parsed before the status is
  looked at, so a 429 response whose body is not JSON makes validateApiKey throw the
  parser's SyntaxError where the claim has it return true; with a JSON body, even an
  empty object, the same status gives true. A 401 response with such a body ends in
  the SyntaxError as well, not in the error that names the invalid key.
\<close>

theorem validateApiKey_rate_limited_unparseable:
  "validateApiKey
     (\<lambda>request. FetchResolves \<lparr> status = 429, json = JsonRejects (SyntaxError ''Unexpected token < in JSON at position 0'') \<rparr>)
     ''sk-ant-key'' = Inl (SyntaxError ''Unexpected token < in JSON at position 0'')
   \<and> validateApiKey
     (\<lambda>request. FetchResolves \<lparr> status = 429, json = JsonResolves empty_object \<rparr>)
     ''sk-ant-key'' = Inr True
   \<and> validateApiKey
     (\<lambda>request. FetchResolves \<lparr> status = 401, json = JsonRejects (SyntaxError ''Unexpected end of JSON input'') \<rparr>)
     ''sk-ant-key'' = Inl (SyntaxError ''Unexpected end of JSON input'')"
  by (simp add: validateApiKey_def rethrow_def ok_def)


section \<open>The breakdowns by area and by category\<close>

lemma length_order_by_total_desc: "length (order_by_total_desc gs) = length gs"
proof -
  have "length (filter (\<lambda>g. \<not> Option.is_none (total_value g)) gs)
      + length (filter (\<lambda>g. Option.is_none (total_value g)) gs) = length gs"
    by (induction gs) simp_all
  then show ?thesis
    by (simp add: order_by_total_desc_def)
qed

lemma kept_labels:
  "set (map (\<lambda>r. the (col r)) (filter (\<lambda>r. col r \<noteq> None \<and> col r \<noteq> Some []) rows))
     = {a. a \<noteq> [] \<and> Some a \<in> col ` set rows}"
proof (intro set_eqI iffI)
  fix a
  assume "a \<in> set (map (\<lambda>r. the (col r)) (filter (\<lambda>r. col r \<noteq> None \<and> col r \<noteq> Some []) rows))"
  then obtain r where "r \<in> set rows" "col r \<noteq> None" "col r \<noteq> Some []" "a = the (col r)"
    by auto
  then show "a \<in> {a. a \<noteq> [] \<and> Some a \<in> col ` set rows}"
    by (cases "col r") (auto simp: image_iff intro: bexI [of _ r])
next
  fix a
  assume "a \<in> {a. a \<noteq> [] \<and> Some a \<in> col ` set rows}"
  then obtain r where "r \<in> set rows" "col r = Some a" "a \<noteq> []"
    by (auto simp: image_iff)
  then have "r \<in> set (filter (\<lambda>r. col r \<noteq> None \<and> col r \<noteq> Some []) rows)" "a = the (col r)"
    by simp_all
  then show "a \<in> set (map (\<lambda>r. the (col r)) (filter (\<lambda>r. col r \<noteq> None \<and> col r \<noteq> Some []) rows))"
    unfolding set_map by (rule image_eqI [rotated])
qed

lemma length_group_totals:
  "length (group_totals engine_sum col rows) = card {a. a \<noteq> [] \<and> Some a \<in> col ` set rows}"
  unfolding group_totals_def Let_def length_map length_remdups_card_conv kept_labels ..

text \<open>
  Whatever the amounts and whatever the engine's sum: each breakdown has one row per
  distinct non-empty value of its column, up to its limit, which is 30 for the areas
  and 20 for the categories in the query service and 50 for the areas in App.tsx. So
  the two area breakdowns differ on every table with more than 30 distinct areas.
\<close>

lemma breakdown_row_counts:
  "(\<exists>out. getAreaBreakdown engine_sum (Connected rows) = Inr out
      \<and> length out = min 30 (card {a. a \<noteq> [] \<and> Some a \<in> area_of_delivery ` set rows}))
   \<and> (\<exists>out. getCategoryBreakdown engine_sum (Connected rows) = Inr out
      \<and> length out = min 20 (card {c. c \<noteq> [] \<and> Some c \<in> business_category ` set rows}))
   \<and> (\<exists>out. App_getAreaBreakdown engine_sum (Connected rows) = Inr out
      \<and> length out = min 50 (card {a. a \<noteq> [] \<and> Some a \<in> area_of_delivery ` set rows}))"
  by (simp add: getAreaBreakdown_def getCategoryBreakdown_def App_getAreaBreakdown_def
      length_order_by_total_desc length_group_totals min.commute)

text \<open>
  C7 on the code. The table holds 31 contracts in 31 distinct areas. A cap of 50 keeps
  all 31 areas, and the area breakdown of App.tsx, whose query ends in LIMIT 50, returns
  31 rows; getAreaBreakdown of the query service, whose query ends in LIMIT 30, returns
  30 rows and leaves out the area with the smallest total.
\<close>

theorem area_breakdown_stops_at_30:
  "length (remdups (map area_of_delivery thirty_one_areas)) = 31
   \<and> length (projr (App_getAreaBreakdown sum_list (Connected thirty_one_areas))) = 31
   \<and> length (projr (getAreaBreakdown sum_list (Connected thirty_one_areas))) = 30
   \<and> ''Area 1'' \<in> set (map label (projr (App_getAreaBreakdown sum_list (Connected thirty_one_areas))))
   \<and> ''Area 1'' \<notin> set (map label (projr (getAreaBreakdown sum_list (Connected thirty_one_areas))))
   \<and> hd (projr (getAreaBreakdown sum_list (Connected thirty_one_areas)))
       = \<lparr> label = ''Area 31'', totalValue = 31, count = 1 \<rparr>"
proof -
  have 1: "length (remdups (map area_of_delivery thirty_one_areas)) = 31"
    by code_simp
  have 2: "length (projr (App_getAreaBreakdown sum_list (Connected thirty_one_areas))) = 31"
    by code_simp
  have 3: "length (projr (getAreaBreakdown sum_list (Connected thirty_one_areas))) = 30"
    by code_simp
  have 4: "''Area 1'' \<in> set (map label (projr (App_getAreaBreakdown sum_list (Connected thirty_one_areas))))"
    by code_simp
  have 5: "''Area 1'' \<notin> set (map label (projr (getAreaBreakdown sum_list (Connected thirty_one_areas))))"
    by code_simp
  have 6: "hd (projr (getAreaBreakdown sum_list (Connected thirty_one_areas)))
       = \<lparr> label = ''Area 31'', totalValue = 31, count = 1 \<rparr>"
    by code_simp
  from 1 2 3 4 5 6 show ?thesis by blast
qed

text \<open>
  A group without any amount has the total NULL, is ordered last and reaches the caller
  with the total 0.
\<close>

lemma breakdown_of_missing_amounts:
  "getAreaBreakdown sum_list (Connected
     [\<lparr> award_title = None, awardee_name = None, organization_name = None,
        area_of_delivery = Some ''Cebu'', business_category = None,
        contract_amount = None \<rparr>,
      \<lparr> award_title = None, awardee_name = None, organization_name = None,
        area_of_delivery = Some ''Davao'', business_category = None,
        contract_amount = Some (- 5 :: int) \<rparr>])
   = Inr [\<lparr> label = ''Davao'', totalValue = - 5, count = 1 \<rparr>,
          \<lparr> label = ''Cebu'', totalValue = 0, count = 1 \<rparr>]"
  by code_simp

section \<open>The text filters of the contract query\<close>

lemma sql_literal_escape:
  "(\<And>ds. rest \<noteq> QUOTE # ds) \<Longrightarrow> sql_literal (escape_quotes s @ QUOTE # rest) = Some (s, rest)"
proof (induction s)
  case Nil
  then show ?case by (cases rest) (auto simp: escape_quotes_def)
next
  case (Cons c s)
  then have IH: "sql_literal (escape_quotes s @ QUOTE # rest) = Some (s, rest)" by simp
  show ?case
  proof (cases "c = QUOTE")
    case True
    then show ?thesis using IH by (simp add: escape_quotes_def)
  next
    case False
    obtain d ds where "escape_quotes s @ QUOTE # rest = d # ds"
      by (cases "escape_quotes s @ QUOTE # rest") auto
    then show ?thesis using False IH by (simp add: escape_quotes_def)
  qed
qed

lemma literal_value_escape: "literal_value (escape_quotes s) = Some s"
  using sql_literal_escape [of "[]" s] by (simp add: literal_value_def)

text \<open>
  Read from the character after its opening quote, the text of the area condition and
  of the category condition is one literal whose value is the input, with nothing left.
\<close>

lemma area_condition_reads_back: "sql_literal (drop 20 (area_condition a)) = Some (a, [])"
  using sql_literal_escape [of "[]" a] by (simp add: area_condition_def)

lemma category_condition_reads_back: "sql_literal (drop 21 (category_condition c)) = Some (c, [])"
  using sql_literal_escape [of "[]" c] by (simp add: category_condition_def)

lemma lower_char_eq_iff:
  assumes "(of_char x :: nat) < 65 \<or> (90 < (of_char x :: nat) \<and> (of_char x :: nat) < 97)"
  shows "lower_char c = x \<longleftrightarrow> c = x"
proof (cases "65 \<le> (of_char c :: nat) \<and> (of_char c :: nat) \<le> 90")
  case True
  then have "of_char (lower_char c) = (of_char c :: nat) + 32"
    by (simp add: lower_char_def Let_def)
  then have "lower_char c \<noteq> x"
    using True assms by auto
  moreover have "c \<noteq> x"
    using True assms by auto
  ultimately show ?thesis by simp
next
  case False
  then show ?thesis by (auto simp: lower_char_def Let_def)
qed

lemma lower_char_QUOTE: "lower_char c = QUOTE \<longleftrightarrow> c = QUOTE"
  by (rule lower_char_eq_iff) (simp add: QUOTE_def)

lemma lower_char_percent: "lower_char c = CHR ''%'' \<longleftrightarrow> c = CHR ''%''"
  by (rule lower_char_eq_iff) simp

lemma lower_char_underscore: "lower_char c = CHR ''_'' \<longleftrightarrow> c = CHR ''_''"
  by (rule lower_char_eq_iff) simp

lemma escape_quotes_append: "escape_quotes (xs @ ys) = escape_quotes xs @ escape_quotes ys"
  by (simp add: escape_quotes_def)

lemma toLowerCase_escape_quotes: "toLowerCase (escape_quotes s) = escape_quotes (toLowerCase s)"
proof (induction s)
  case Nil
  show ?case by (simp add: toLowerCase_def escape_quotes_def)
next
  case (Cons c s)
  then have IH: "map lower_char (escape_quotes s) = escape_quotes (map lower_char s)"
    by (simp add: toLowerCase_def)
  have "lower_char QUOTE = QUOTE"
    using lower_char_QUOTE [of QUOTE] by simp
  then show ?case
    using IH lower_char_QUOTE [of c] by (auto simp: toLowerCase_def escape_quotes_def)
qed

lemma search_literal_value:
  "literal_value (''%'' @ toLowerCase (escape_quotes q) @ ''%'') = Some (''%'' @ toLowerCase q @ ''%'')"
proof -
  have p: "escape_quotes ''%'' = ''%''"
    by (simp add: escape_quotes_def QUOTE_def)
  have "literal_value (escape_quotes (''%'' @ toLowerCase q @ ''%'')) = Some (''%'' @ toLowerCase q @ ''%'')"
    by (rule literal_value_escape)
  then show ?thesis
    unfolding escape_quotes_append p toLowerCase_escape_quotes .
qed

lemma like_percent: "like_match ''%'' t"
  by (induction t) simp_all

lemma like_prefix:
  "CHR ''%'' \<notin> set p \<Longrightarrow> CHR ''_'' \<notin> set p \<Longrightarrow> like_match (p @ ''%'') t \<longleftrightarrow> prefix p t"
proof (induction p arbitrary: t)
  case Nil
  then show ?case by (simp add: like_percent)
next
  case (Cons a p)
  then show ?case by (cases t) auto
qed


lemma like_contains:
  assumes "CHR ''%'' \<notin> set p" and "CHR ''_'' \<notin> set p"
  shows "like_match (CHR ''%'' # p @ ''%'') t \<longleftrightarrow> sublist p t"
proof (induction t)
  case Nil
  have "like_match (p @ ''%'') [] \<longleftrightarrow> prefix p []"
    by (rule like_prefix [OF assms])
  then show ?case by simp
next
  case (Cons c cs)
  have "like_match (p @ ''%'') (c # cs) \<longleftrightarrow> prefix p (c # cs)"
    by (rule like_prefix [OF assms])
  then have "like_match (CHR ''%'' # p @ ''%'') (c # cs) \<longleftrightarrow> prefix p (c # cs) \<or> sublist p cs"
    using Cons by simp
  then show ?case
    by (simp only: sublist_Cons_right)
qed

lemma percent_free_lower: "CHR ''%'' \<in> set (toLowerCase q) \<longleftrightarrow> CHR ''%'' \<in> set q"
proof -
  have "CHR ''%'' \<in> lower_char ` set q \<longleftrightarrow> CHR ''%'' \<in> set q"
    by (metis lower_char_percent image_iff)
  then show ?thesis by (simp add: toLowerCase_def)
qed

lemma underscore_free_lower: "CHR ''_'' \<in> set (toLowerCase q) \<longleftrightarrow> CHR ''_'' \<in> set q"
proof -
  have "CHR ''_'' \<in> lower_char ` set q \<longleftrightarrow> CHR ''_'' \<in> set q"
    by (metis lower_char_underscore image_iff)
  then show ?thesis by (simp add: toLowerCase_def)
qed

lemma sql_or_True: "sql_or a b = Some True \<longleftrightarrow> a = Some True \<or> b = Some True"
  by (cases "(a, b)" rule: sql_or.cases) auto

lemma sql_and_True: "sql_and a b = Some True \<longleftrightarrow> a = Some True \<and> b = Some True"
  by (cases "(a, b)" rule: sql_and.cases) auto

lemma conjunction_True:
  "foldr (\<lambda>f acc. sql_and (f r) acc) conds (Some True) = Some True
     \<longleftrightarrow> (\<forall>f \<in> set conds. f r = Some True)"
  by (induction conds) (simp_all add: sql_and_True)

lemma sql_like_lower_True:
  "sql_like (sql_lower v) pattern = Some True \<longleftrightarrow> (\<exists>t. v = Some t \<and> like_match pattern (toLowerCase t))"
  by (cases v) (simp_all add: sql_like_def sql_lower_def)

lemma sql_equals_True: "sql_equals v lit = Some True \<longleftrightarrow> v = Some lit"
  by (cases v) (simp_all add: sql_equals_def)

lemma search_filter_value:
  "search_filter q = Some (\<lambda>r.
          sql_or (sql_or (sql_like (sql_lower (award_title r)) (''%'' @ toLowerCase q @ ''%''))
                         (sql_like (sql_lower (awardee_name r)) (''%'' @ toLowerCase q @ ''%'')))
                 (sql_like (sql_lower (organization_name r)) (''%'' @ toLowerCase q @ ''%'')))"
  unfolding search_filter_def search_literal_value by simp

lemma area_filter_value: "area_filter a = Some (\<lambda>r. sql_equals (area_of_delivery r) a)"
  unfolding area_filter_def literal_value_escape by simp

lemma category_filter_value: "category_filter c = Some (\<lambda>r. sql_equals (business_category r) c)"
  unfolding category_filter_def literal_value_escape by simp

lemma filters_well_formed: "None \<notin> set (filters options)"
  by (simp add: filters_def search_filter_value area_filter_value category_filter_value)

lemma those_all_Some: "None \<notin> set xs \<Longrightarrow> those xs = Some (map the xs)"
proof (induction xs)
  case Nil
  show ?case by simp
next
  case (Cons a xs)
  then obtain y where "a = Some y" by (cases a) auto
  with Cons show ?case by simp
qed

lemma truthy_the: "truthy v \<Longrightarrow> w = Some (the v) \<longleftrightarrow> w = v"
  by (cases v) auto

lemma passes_iff:
  "(\<forall>f \<in> set (map the (filters options)). f r = Some True) \<longleftrightarrow>
     (truthy (searchQuery options) \<longrightarrow>
        (\<exists>t. (award_title r = Some t \<or> awardee_name r = Some t \<or> organization_name r = Some t)
           \<and> like_match (''%'' @ toLowerCase (the (searchQuery options)) @ ''%'') (toLowerCase t)))
     \<and> (truthy (area options) \<longrightarrow> area_of_delivery r = area options)
     \<and> (truthy (category options) \<longrightarrow> business_category r = category options)"
proof -
  have s: "(sql_or (sql_or (sql_like (sql_lower (award_title r)) p)
                         (sql_like (sql_lower (awardee_name r)) p))
                 (sql_like (sql_lower (organization_name r)) p) = Some True)
      \<longleftrightarrow> (\<exists>t. (award_title r = Some t \<or> awardee_name r = Some t \<or> organization_name r = Some t)
           \<and> like_match p (toLowerCase t))" for p
    unfolding sql_or_True sql_like_lower_True by blast
  show ?thesis
    unfolding filters_def search_filter_value area_filter_value category_filter_value
    by (simp add: s sql_equals_True truthy_the ball_Un del: append.simps)
qed

text \<open>
  C8 as the code has it. With the connection open the query is never malformed by its
  text filters: every quote of an input is doubled, so the engine reads back exactly
  the input (the lower-cased query between two percent signs for the search). The rows
  returned are those that pass every filter given, ordered by amount and cut by offset
  and limit. The search query is a LIKE pattern matched against the lower-cased award
  title, awardee name and organization name, one of which must match; for a query
  without percent sign and underscore that is the case-insensitive substring test. The
  area and the category are compared with the row's value for equality, case and all.
\<close>

theorem queryContracts_text_filters:
  "queryContracts (Connected rows) options =
     Inr (take (limit options) (drop (offset options) (order_by_amount_desc
       (filter (\<lambda>r.
           (truthy (searchQuery options) \<longrightarrow>
              (\<exists>t. (award_title r = Some t \<or> awardee_name r = Some t \<or> organization_name r = Some t)
                 \<and> like_match (''%'' @ toLowerCase (the (searchQuery options)) @ ''%'') (toLowerCase t)))
           \<and> (truthy (area options) \<longrightarrow> area_of_delivery r = area options)
           \<and> (truthy (category options) \<longrightarrow> business_category r = category options))
         rows))))
   \<and> (CHR ''%'' \<notin> set q \<and> CHR ''_'' \<notin> set q \<longrightarrow>
        like_match (''%'' @ toLowerCase q @ ''%'') (toLowerCase t) = sublist (toLowerCase q) (toLowerCase t))
   \<and> literal_value (''%'' @ toLowerCase (escape_quotes q) @ ''%'') = Some (''%'' @ toLowerCase q @ ''%'')
   \<and> literal_value (escape_quotes a) = Some a
   \<and> sql_literal (drop 20 (area_condition a)) = Some (a, [])
   \<and> sql_literal (drop 21 (category_condition a)) = Some (a, [])
   \<and> search_filter q \<noteq> None \<and> area_filter a \<noteq> None \<and> category_filter a \<noteq> None"
proof -
  have "queryContracts (Connected rows) options =
     Inr (take (limit options) (drop (offset options) (order_by_amount_desc
       (filter (\<lambda>r. \<forall>f \<in> set (map the (filters options)). f r = Some True) rows))))"
    by (simp add: queryContracts_def Let_def conjunction_True those_all_Some
        filters_well_formed del: set_map)
  then have 1: "queryContracts (Connected rows) options =
     Inr (take (limit options) (drop (offset options) (order_by_amount_desc
       (filter (\<lambda>r.
           (truthy (searchQuery options) \<longrightarrow>
              (\<exists>t. (award_title r = Some t \<or> awardee_name r = Some t \<or> organization_name r = Some t)
                 \<and> like_match (''%'' @ toLowerCase (the (searchQuery options)) @ ''%'') (toLowerCase t)))
           \<and> (truthy (area options) \<longrightarrow> area_of_delivery r = area options)
           \<and> (truthy (category options) \<longrightarrow> business_category r = category options))
         rows))))"
    unfolding passes_iff .
  have 2: "CHR ''%'' \<notin> set q \<and> CHR ''_'' \<notin> set q \<longrightarrow>
        like_match (''%'' @ toLowerCase q @ ''%'') (toLowerCase t) = sublist (toLowerCase q) (toLowerCase t)"
    using like_contains [of "toLowerCase q" "toLowerCase t"]
    by (simp add: percent_free_lower underscore_free_lower)
  show ?thesis
    using 1 2
    by (simp only: search_literal_value literal_value_escape search_filter_value
        area_filter_value category_filter_value area_condition_reads_back
        category_condition_reads_back) simp
qed

theorem queryContracts_text_filters_witness:
  "queryContracts (Connected three_contracts)
     \<lparr> limit = 1000, offset = 0, searchQuery = Some ''COVID'', area = None, category = None \<rparr>
     = Inr [three_contracts ! 1]
   \<and> CHR ''%'' \<notin> set ''COVID'' \<and> CHR ''_'' \<notin> set ''COVID''
   \<and> like_match (''%'' @ toLowerCase ''COVID'' @ ''%'')
        (toLowerCase ''Medical Supplies for COVID-19 Prevention'')
   \<and> sublist (toLowerCase ''COVID'') (toLowerCase ''Medical Supplies for COVID-19 Prevention'')"
proof -
  have 1: "queryContracts (Connected three_contracts)
     \<lparr> limit = 1000, offset = 0, searchQuery = Some ''COVID'', area = None, category = None \<rparr>
     = Inr [three_contracts ! 1]"
    by code_simp
  have 2: "CHR ''%'' \<notin> set ''COVID'' \<and> CHR ''_'' \<notin> set ''COVID''"
    by simp
  have 3: "like_match (''%'' @ toLowerCase ''COVID'' @ ''%'')
        (toLowerCase ''Medical Supplies for COVID-19 Prevention'')"
    by code_simp
  have "like_match (''%'' @ toLowerCase ''COVID'' @ ''%'')
        (toLowerCase ''Medical Supplies for COVID-19 Prevention'')
      = sublist (toLowerCase ''COVID'') (toLowerCase ''Medical Supplies for COVID-19 Prevention'')"
    using queryContracts_text_filters
      [of three_contracts _ "''COVID''" "''Medical Supplies for COVID-19 Prevention''"] 2
    by blast
  with 3 have "sublist (toLowerCase ''COVID'') (toLowerCase ''Medical Supplies for COVID-19 Prevention'')"
    by simp
  with 1 2 3 show ?thesis by blast
qed

text \<open>
  C8 as stated fails. The area ``manila'' occurs, ignoring case, in ``Metro Manila'',
  yet the area filter ``manila'' returns no row of the table. And the search query
  ``r_ad'' does not occur in ``Road repair'', yet it returns that contract, because
  the underscore is a wildcard of LIKE.
\<close>

theorem text_filters_substring_counterexample:
  "sublist (toLowerCase ''manila'') (toLowerCase ''Metro Manila'')
   \<and> queryContracts (Connected three_contracts)
       \<lparr> limit = 1000, offset = 0, searchQuery = None, area = Some ''manila'', category = None \<rparr>
       = Inr []
   \<and> \<not> sublist (toLowerCase ''r_ad'') (toLowerCase ''Road repair'')
   \<and> queryContracts (Connected three_contracts)
       \<lparr> limit = 1000, offset = 0, searchQuery = Some ''r_ad'', area = None, category = None \<rparr>
       = Inr [three_contracts ! 0]"
proof -
  have "sublist (toLowerCase ''manila'') (toLowerCase ''Metro Manila'')"
    by code_simp
  moreover have "queryContracts (Connected three_contracts)
       \<lparr> limit = 1000, offset = 0, searchQuery = None, area = Some ''manila'', category = None \<rparr>
       = Inr []"
    by code_simp
  moreover have "\<not> sublist (toLowerCase ''r_ad'') (toLowerCase ''Road repair'')"
    by code_simp
  moreover have "queryContracts (Connected three_contracts)
       \<lparr> limit = 1000, offset = 0, searchQuery = Some ''r_ad'', area = None, category = None \<rparr>
       = Inr [three_contracts ! 0]"
    by code_simp
  ultimately show ?thesis by blast
qed

end
